theory Spec2Isabelle
  imports Main
begin

section \<open>Python values that reach the declaration entry points\<close>

text \<open>
  The entry points of \<^verbatim>\<open>pydantic/decorators.py\<close> are ordinary Python functions: their
  annotations are not enforced, so any object may arrive as a target name or as an option.
  The tests the code applies are \<^verbatim>\<open>isinstance(x, FunctionType)\<close>, \<^verbatim>\<open>isinstance(x, str)\<close>,
  \<^verbatim>\<open>isinstance(f, (staticmethod, classmethod))\<close>, and the identity tests \<^verbatim>\<open>x is True\<close>,
  \<^verbatim>\<open>x is False\<close>, \<^verbatim>\<open>x is None\<close>. A plain function carries its name and the names of its
  parameters; \<open>PyObject\<close> stands for every other object (a type, a partial, a callable
  instance), by name.
\<close>

datatype pyobj =
    PyNone
  | PyBool bool
  | PyInt int
  | PyStr string
  | PyFunction string "string list"
  | PyStaticmethod pyobj
  | PyClassmethod pyobj
  | PyObject string

fun isinstance_FunctionType :: "pyobj \<Rightarrow> bool" where
  "isinstance_FunctionType (PyFunction n ps) = True"
| "isinstance_FunctionType x = False"

fun isinstance_str :: "pyobj \<Rightarrow> bool" where
  "isinstance_str (PyStr s) = True"
| "isinstance_str x = False"

fun isinstance_staticmethod_classmethod :: "pyobj \<Rightarrow> bool" where
  "isinstance_staticmethod_classmethod (PyStaticmethod g) = True"
| "isinstance_staticmethod_classmethod (PyClassmethod g) = True"
| "isinstance_staticmethod_classmethod x = False"

text \<open>\<^verbatim>\<open>x is True\<close>, \<^verbatim>\<open>x is False\<close> and \<^verbatim>\<open>x is None\<close> compare with the three singletons.\<close>

definition is_True :: "pyobj \<Rightarrow> bool" where
  "is_True x = (x = PyBool True)"

definition is_False :: "pyobj \<Rightarrow> bool" where
  "is_False x = (x = PyBool False)"

definition is_None :: "pyobj \<Rightarrow> bool" where
  "is_None x = (x = PyNone)"

section \<open>Errors and warnings\<close>

text \<open>
  \<^verbatim>\<open>raise PydanticUserError(message, code=...)\<close> and \<^verbatim>\<open>raise TypeError(message)\<close> are the
  two ways a declaration fails; \<^verbatim>\<open>warn(message, DeprecationWarning)\<close> is the one non-fatal
  signal. A call returns the warnings it emitted, in order, and either the error it raised
  or its value.
\<close>

datatype error =
    PydanticUserError string string
  | TypeError string

datatype warning = DeprecationWarning string

definition ALLOW_REUSE_WARNING_MESSAGE :: string where
  "ALLOW_REUSE_WARNING_MESSAGE =
     ''`allow_reuse` is deprecated and will be ignored; it should no longer be necessary''"

definition V1_VALIDATOR_WARNING_MESSAGE :: string where
  "V1_VALIDATOR_WARNING_MESSAGE =
     ''Pydantic V1 style `@validator` validators are deprecated. You should migrate to Pydantic V2 style `@field_validator` validators, see the migration guide for more details''"

section \<open>Descriptors, shims and markers\<close>

text \<open>
  Modelled from the spec: the classes \<^verbatim>\<open>ValidatorDecoratorInfo\<close>,
  \<^verbatim>\<open>FieldValidatorDecoratorInfo\<close>, \<^verbatim>\<open>RootValidatorDecoratorInfo\<close>,
  \<^verbatim>\<open>FieldSerializerDecoratorInfo\<close>, \<^verbatim>\<open>ModelSerializerDecoratorInfo\<close> and
  \<^verbatim>\<open>ModelValidatorDecoratorInfo\<close> are declared in \<^verbatim>\<open>pydantic/_internal/_decorators.py\<close>,
  which is not among the sources. The spec describes the descriptor as an immutable record of
  targets, mode and options, compared by value. Each constructor below takes the keyword
  arguments of the constructor call in \<^verbatim>\<open>decorators.py\<close>, in the order of that call.
\<close>

datatype decorator_info =
    ValidatorDecoratorInfo "pyobj list" pyobj pyobj pyobj pyobj
  | FieldValidatorDecoratorInfo "pyobj list" pyobj pyobj
  | RootValidatorDecoratorInfo pyobj
  | FieldSerializerDecoratorInfo "pyobj list" pyobj pyobj pyobj pyobj pyobj
  | ModelSerializerDecoratorInfo pyobj pyobj
  | ModelValidatorDecoratorInfo pyobj


text \<open>
  The shim is either a function of \<^verbatim>\<open>_decorators\<close> by name, or
  \<^verbatim>\<open>partial(function, **keywords)\<close> with the keywords it fixes.
\<close>

datatype shim =
    Func string
  | Partial string "(string \<times> pyobj) list"

text \<open>
  Modelled from the spec: \<^verbatim>\<open>PydanticDecoratorMarker\<close>, declared in
  \<^verbatim>\<open>pydantic/_internal/_decorators.py\<close>, is absent too. The spec describes the marker as
  inert data that wraps the raw function, the descriptor and the adapter; the fields are the
  arguments of the call \<^verbatim>\<open>PydanticDecoratorMarker(f, info, shim=wrap)\<close>.
\<close>

record marker =
  wrapped :: pyobj
  decorator_info :: decorator_info
  shim :: shim

text \<open>
  The two helpers of \<^verbatim>\<open>_decorators\<close> that the entry points call on the decorated function
  are not among the sources either. They are parameters of the model: every theorem below
  holds for whatever classification \<open>is_instance_method_from_sig\<close> computes and whatever
  object \<open>ensure_classmethod_based_on_signature\<close> returns.
\<close>

record decorators =
  is_instance_method_from_sig :: "pyobj \<Rightarrow> bool"
  ensure_classmethod_based_on_signature :: "pyobj \<Rightarrow> pyobj"

type_synonym decorator = "pyobj \<Rightarrow> error + marker"

section \<open>root\_validator\<close>

text \<open>The inner \<^verbatim>\<open>dec\<close> of \<^verbatim>\<open>root_validator\<close>, with the variables it closes over.\<close>

definition root_validator_dec :: "decorators \<Rightarrow> pyobj \<Rightarrow> shim \<Rightarrow> decorator" where
  "root_validator_dec D mode wrap f =
     (if is_instance_method_from_sig D f
      then Inl (TypeError ''`@root_validator` cannot be applied to instance methods'')
      else
        let res = ensure_classmethod_based_on_signature D f;
            validator_wrapper_info = RootValidatorDecoratorInfo mode
        in Inr \<lparr>wrapped = res, decorator_info = validator_wrapper_info, shim = wrap\<rparr>)"

text \<open>
  \<^verbatim>\<open>root_validator(*, pre=False, skip_on_failure=False, allow_reuse=False)\<close>; an omitted
  keyword is the default \<open>PyBool False\<close>.
\<close>

definition root_validator ::
  "decorators \<Rightarrow> pyobj \<Rightarrow> pyobj \<Rightarrow> pyobj \<Rightarrow> warning list \<times> (error + decorator)" where
  "root_validator D pre skip_on_failure allow_reuse =
     (let ws = (if is_True allow_reuse
                then [DeprecationWarning ALLOW_REUSE_WARNING_MESSAGE] else []);
          mode = (if is_True pre then PyStr ''before'' else PyStr ''after'')
      in if is_False pre \<and> \<not> is_True skip_on_failure
         then (ws, Inl (PydanticUserError
                 ''If you use `@root_validator` with pre=False (the default) you MUST specify `skip_on_failure=True`.''
                 ''root-validator-pre-skip''))
         else
           let wrap = Partial ''make_v1_generic_root_validator'' [(''pre'', pre)]
           in (ws, Inr (root_validator_dec D mode wrap)))"

section \<open>validator\<close>

text \<open>The inner \<^verbatim>\<open>dec\<close> of \<^verbatim>\<open>validator\<close>, with the variables it closes over.\<close>

definition validator_dec ::
  "decorators \<Rightarrow> pyobj list \<Rightarrow> pyobj \<Rightarrow> pyobj \<Rightarrow> pyobj \<Rightarrow> pyobj \<Rightarrow> decorator" where
  "validator_dec D fields' mode each_item always check_fields f =
     (if is_instance_method_from_sig D f
      then Inl (PydanticUserError ''`@validator` cannot be applied to instance methods''
                  ''validator-instance-method'')
      else
        let f' = ensure_classmethod_based_on_signature D f;
            wrap = Func ''make_generic_v1_field_validator'';
            validator_wrapper_info =
              ValidatorDecoratorInfo fields' mode each_item always check_fields
        in Inr \<lparr>wrapped = f', decorator_info = validator_wrapper_info, shim = wrap\<rparr>)"

text \<open>
  \<^verbatim>\<open>validator(__field, *fields, pre=False, each_item=False, always=False,
  check_fields=None, allow_reuse=False)\<close>. The first target is a parameter of its own, so
  \<^verbatim>\<open>fields[0]\<close> always exists. The tuple \<^verbatim>\<open>fields\<close> of the source is \<open>fields'\<close> here.
\<close>

definition validator ::
  "decorators \<Rightarrow> pyobj \<Rightarrow> pyobj list \<Rightarrow> pyobj \<Rightarrow> pyobj \<Rightarrow> pyobj \<Rightarrow> pyobj \<Rightarrow> pyobj
     \<Rightarrow> warning list \<times> (error + decorator)" where
  "validator D field0 more_fields pre each_item always check_fields allow_reuse =
     (let ws = (if is_True allow_reuse
                then [DeprecationWarning ALLOW_REUSE_WARNING_MESSAGE] else []);
          fields' = field0 # more_fields
      in if isinstance_FunctionType (hd fields')
         then (ws, Inl (PydanticUserError
                 ''validators should be used with fields and keyword arguments, not bare. E.g. usage should be `@validator('<field_name>', ...)`''
                 ''validator-no-fields''))
         else if \<not> list_all isinstance_str fields'
         then (ws, Inl (PydanticUserError
                 ''validator fields should be passed as separate string args. E.g. usage should be `@validator('<field_name_1>', '<field_name_2>', ...)`''
                 ''validator-invalid-fields''))
         else
           let ws = ws @ [DeprecationWarning V1_VALIDATOR_WARNING_MESSAGE];
               mode = (if is_True pre then PyStr ''before'' else PyStr ''after'')
           in (ws, Inr (validator_dec D fields' mode each_item always check_fields)))"

section \<open>field\_validator\<close>

definition field_validator_dec ::
  "decorators \<Rightarrow> pyobj list \<Rightarrow> pyobj \<Rightarrow> pyobj \<Rightarrow> decorator" where
  "field_validator_dec D fields' mode check_fields f =
     (if is_instance_method_from_sig D f
      then Inl (PydanticUserError ''`@field_validator` cannot be applied to instance methods''
                  ''validator-instance-method'')
      else
        let f' = ensure_classmethod_based_on_signature D f;
            wrap = Partial ''make_generic_validator'' [(''mode'', mode)];
            validator_wrapper_info = FieldValidatorDecoratorInfo fields' mode check_fields
        in Inr \<lparr>wrapped = f', decorator_info = validator_wrapper_info, shim = wrap\<rparr>)"

text \<open>\<^verbatim>\<open>field_validator(__field, *fields, mode='after', check_fields=None)\<close>.\<close>

definition field_validator ::
  "decorators \<Rightarrow> pyobj \<Rightarrow> pyobj list \<Rightarrow> pyobj \<Rightarrow> pyobj \<Rightarrow> error + decorator" where
  "field_validator D field0 more_fields mode check_fields =
     (let fields' = field0 # more_fields
      in if isinstance_FunctionType (hd fields')
         then Inl (PydanticUserError
                 ''field_validators should be used with fields and keyword arguments, not bare. E.g. usage should be `@validator('<field_name>', ...)`''
                 ''validator-no-fields'')
         else if \<not> list_all isinstance_str fields'
         then Inl (PydanticUserError
                 ''field_validator fields should be passed as separate string args. E.g. usage should be `@validator('<field_name_1>', '<field_name_2>', ...)`''
                 ''validator-invalid-fields'')
         else Inr (field_validator_dec D fields' mode check_fields))"

section \<open>field\_serializer\<close>

definition field_serializer_dec ::
  "decorators \<Rightarrow> pyobj list \<Rightarrow> pyobj \<Rightarrow> pyobj \<Rightarrow> pyobj \<Rightarrow> pyobj \<Rightarrow> decorator" where
  "field_serializer_dec D fields' mode json_return_type when_used check_fields f =
     (let type' = (if is_instance_method_from_sig D f
                   then PyStr ''field'' else PyStr ''general'');
          dec_info = FieldSerializerDecoratorInfo fields' mode type' json_return_type
                       when_used check_fields
      in Inr \<lparr>wrapped = f, decorator_info = dec_info,
              shim = Partial ''make_generic_serializer'' [(''mode'', mode), (''type'', type')]\<rparr>)"

text \<open>
  \<^verbatim>\<open>field_serializer(*fields, mode='plain', json_return_type=None, when_used='always',
  check_fields=None)\<close>: the body is the definition of \<^verbatim>\<open>dec\<close> and \<^verbatim>\<open>return dec\<close>.
\<close>

definition field_serializer ::
  "decorators \<Rightarrow> pyobj list \<Rightarrow> pyobj \<Rightarrow> pyobj \<Rightarrow> pyobj \<Rightarrow> pyobj \<Rightarrow> error + decorator" where
  "field_serializer D fields' mode json_return_type when_used check_fields =
     Inr (field_serializer_dec D fields' mode json_return_type when_used check_fields)"

section \<open>model\_serializer\<close>

definition model_serializer_dec :: "decorators \<Rightarrow> pyobj \<Rightarrow> pyobj \<Rightarrow> decorator" where
  "model_serializer_dec D mode json_return_type f =
     (if isinstance_staticmethod_classmethod f \<or> \<not> is_instance_method_from_sig D f
      then Inl (PydanticUserError ''`@model_serializer` must be applied to instance methods''
                  ''model-serializer-instance-method'')
      else
        let dec_info = ModelSerializerDecoratorInfo mode json_return_type
        in Inr \<lparr>wrapped = f, decorator_info = dec_info,
                shim = Partial ''make_generic_model_serializer'' [(''mode'', mode)]\<rparr>)"

text \<open>
  \<^verbatim>\<open>model_serializer(__f=None, *, mode='plain', json_return_type=None)\<close> returns the
  decorator when \<^verbatim>\<open>__f is None\<close> and the decorator's result on \<^verbatim>\<open>__f\<close> otherwise.
\<close>

datatype decorator_or_marker =
    Decorator decorator
  | Marker marker

definition model_serializer ::
  "decorators \<Rightarrow> pyobj \<Rightarrow> pyobj \<Rightarrow> pyobj \<Rightarrow> error + decorator_or_marker" where
  "model_serializer D f mode json_return_type =
     (if is_None f then Inr (Decorator (model_serializer_dec D mode json_return_type))
      else case model_serializer_dec D mode json_return_type f of
             Inl e \<Rightarrow> Inl e
           | Inr m \<Rightarrow> Inr (Marker m))"

section \<open>model\_validator\<close>

definition model_validator_dec :: "pyobj \<Rightarrow> decorator" where
  "model_validator_dec mode f =
     (let dec_info = ModelValidatorDecoratorInfo mode;
          shim' = Partial ''make_generic_validator'' [(''mode'', mode)]
      in Inr \<lparr>wrapped = f, decorator_info = dec_info, shim = shim'\<rparr>)"

text \<open>\<^verbatim>\<open>model_validator(*, mode)\<close>: the body is the definition of \<^verbatim>\<open>dec\<close> and \<^verbatim>\<open>return dec\<close>.\<close>

definition model_validator :: "pyobj \<Rightarrow> error + decorator" where
  "model_validator mode = Inr (model_validator_dec mode)"

section \<open>A classifier to run the entry points on\<close>

text \<open>
  The theorems hold for every classifier. To evaluate them on concrete functions, the
  definitions of this section give one classifier, following the spec's description of the
  two helpers of \<^verbatim>\<open>pydantic/_internal/_decorators.py\<close>, which is not among the sources.
\<close>

text \<open>
  Modelled from the spec: the unwrapping step of the absent helpers. The spec has a
  classmethod or staticmethod wrapper unwrapped before its signature is inspected.
\<close>

fun unwrap_wrapped_function :: "pyobj \<Rightarrow> pyobj" where
  "unwrap_wrapped_function (PyStaticmethod g) = g"
| "unwrap_wrapped_function (PyClassmethod g) = g"
| "unwrap_wrapped_function x = x"

text \<open>
  Modelled from the spec: the signature test of the absent \<^verbatim>\<open>is_instance_method_from_sig\<close>.
  The spec takes a function as instance-bound when its first parameter is literally named
  \<^verbatim>\<open>self\<close>.
\<close>

fun first_parameter_is_self :: "pyobj \<Rightarrow> bool" where
  "first_parameter_is_self (PyFunction n (p # ps)) = (p = ''self'')"
| "first_parameter_is_self x = False"

text \<open>
  Modelled from the spec: the absent \<^verbatim>\<open>is_instance_method_from_sig\<close>, the signature test on
  the unwrapped function.
\<close>

definition spec_is_instance_method_from_sig :: "pyobj \<Rightarrow> bool" where
  "spec_is_instance_method_from_sig f = first_parameter_is_self (unwrap_wrapped_function f)"

text \<open>
  Modelled from the spec: the absent \<^verbatim>\<open>ensure_classmethod_based_on_signature\<close>. The spec
  wraps a function as a class-bound callable when it is not already a class or static method
  and does not look like an instance method, and returns it unchanged otherwise.
\<close>

definition spec_ensure_classmethod_based_on_signature :: "pyobj \<Rightarrow> pyobj" where
  "spec_ensure_classmethod_based_on_signature f =
     (if \<not> isinstance_staticmethod_classmethod f \<and> \<not> spec_is_instance_method_from_sig f
      then PyClassmethod f else f)"

text \<open>Modelled from the spec: the two absent helpers above, as one classifier.\<close>

definition spec_decorators :: decorators where
  "spec_decorators =
     \<lparr>is_instance_method_from_sig = spec_is_instance_method_from_sig,
      ensure_classmethod_based_on_signature = spec_ensure_classmethod_based_on_signature\<rparr>"

section \<open>Objects and their identity\<close>

text \<open>
  The definitions above give the contents of what a declaration builds. Python compares
  objects in two ways: \<^verbatim>\<open>a is b\<close> by identity and \<^verbatim>\<open>a == b\<close> by the class's equality. To
  tell them apart the decorators are given a second time over a store of objects. The store
  is the list of the objects constructed so far and the address of an object is its index;
  a constructor call appends the new object, so it never returns an address in use and never
  changes an object that exists. The constructor calls in the source are
  \<^verbatim>\<open>partial(...)\<close>, the \<^verbatim>\<open>...DecoratorInfo(...)\<close> classes and \<^verbatim>\<open>PydanticDecoratorMarker(...)\<close>; a
  module-level function used as a shim is no new object. A marker holds the address of its
  descriptor and a reference to its shim.
\<close>

type_synonym addr = nat

datatype shim_ref =
    FuncRef string
  | PartialRef addr

datatype store_obj =
    ObjPartial string "(string \<times> pyobj) list"
  | ObjDecoratorInfo decorator_info
  | ObjMarker pyobj addr shim_ref

type_synonym store = "store_obj list"

definition alloc :: "store \<Rightarrow> store_obj \<Rightarrow> addr \<times> store" where
  "alloc s obj = (length s, s @ [obj])"

definition store_get :: "store \<Rightarrow> addr \<Rightarrow> store_obj option" where
  "store_get s a = (if a < length s then Some (s ! a) else None)"

text \<open>The attribute \<^verbatim>\<open>decorator_info\<close> of the marker at an address.\<close>

definition marker_decorator_info :: "store \<Rightarrow> addr \<Rightarrow> addr option" where
  "marker_decorator_info s a =
     (case store_get s a of
        Some (ObjMarker w d r) \<Rightarrow> Some d
      | _ \<Rightarrow> None)"

text \<open>
  Modelled from the spec: the equality \<^verbatim>\<open>==\<close> of two descriptor objects. The descriptor
  classes are declared in \<^verbatim>\<open>pydantic/_internal/_decorators.py\<close>, which is not among the
  sources; the spec has descriptors compared by value, not by identity: two descriptors are
  equal when they are of the same class and their fields are equal.
\<close>

definition decorator_info_eq :: "store \<Rightarrow> addr \<Rightarrow> addr \<Rightarrow> bool" where
  "decorator_info_eq s a b =
     (case (store_get s a, store_get s b) of
        (Some (ObjDecoratorInfo x), Some (ObjDecoratorInfo y)) \<Rightarrow> x = y
      | _ \<Rightarrow> False)"

text \<open>The contents of the marker at an address, with its descriptor and shim read from the store.\<close>

definition marker_at :: "store \<Rightarrow> addr \<Rightarrow> marker option" where
  "marker_at s a =
     (case store_get s a of
        Some (ObjMarker w d r) \<Rightarrow>
          (case store_get s d of
             Some (ObjDecoratorInfo i) \<Rightarrow>
               (case r of
                  FuncRef n \<Rightarrow> Some \<lparr>wrapped = w, decorator_info = i, shim = Func n\<rparr>
                | PartialRef p \<Rightarrow>
                    (case store_get s p of
                       Some (ObjPartial n kws) \<Rightarrow>
                         Some \<lparr>wrapped = w, decorator_info = i, shim = Partial n kws\<rparr>
                     | _ \<Rightarrow> None))
           | _ \<Rightarrow> None)
      | _ \<Rightarrow> None)"

type_synonym decorator_store = "pyobj \<Rightarrow> store \<Rightarrow> (error + addr) \<times> store"

text \<open>
  The inner \<^verbatim>\<open>dec\<close> of \<^verbatim>\<open>validator\<close> over the store: \<^verbatim>\<open>wrap\<close> is a module-level function,
  then the descriptor and the marker are constructed.
\<close>

definition validator_dec_store ::
  "decorators \<Rightarrow> pyobj list \<Rightarrow> pyobj \<Rightarrow> pyobj \<Rightarrow> pyobj \<Rightarrow> pyobj \<Rightarrow> decorator_store" where
  "validator_dec_store D fields' mode each_item always check_fields f s =
     (if is_instance_method_from_sig D f
      then (Inl (PydanticUserError ''`@validator` cannot be applied to instance methods''
                   ''validator-instance-method''), s)
      else
        let f' = ensure_classmethod_based_on_signature D f;
            wrap = FuncRef ''make_generic_v1_field_validator'';
            (validator_wrapper_info, s1) =
              alloc s (ObjDecoratorInfo
                         (ValidatorDecoratorInfo fields' mode each_item always check_fields));
            (m, s2) = alloc s1 (ObjMarker f' validator_wrapper_info wrap)
        in (Inr m, s2))"

definition validator_store ::
  "decorators \<Rightarrow> pyobj \<Rightarrow> pyobj list \<Rightarrow> pyobj \<Rightarrow> pyobj \<Rightarrow> pyobj \<Rightarrow> pyobj \<Rightarrow> pyobj
     \<Rightarrow> warning list \<times> (error + decorator_store)" where
  "validator_store D field0 more_fields pre each_item always check_fields allow_reuse =
     (let ws = (if is_True allow_reuse
                then [DeprecationWarning ALLOW_REUSE_WARNING_MESSAGE] else []);
          fields' = field0 # more_fields
      in if isinstance_FunctionType (hd fields')
         then (ws, Inl (PydanticUserError
                 ''validators should be used with fields and keyword arguments, not bare. E.g. usage should be `@validator('<field_name>', ...)`''
                 ''validator-no-fields''))
         else if \<not> list_all isinstance_str fields'
         then (ws, Inl (PydanticUserError
                 ''validator fields should be passed as separate string args. E.g. usage should be `@validator('<field_name_1>', '<field_name_2>', ...)`''
                 ''validator-invalid-fields''))
         else
           let ws = ws @ [DeprecationWarning V1_VALIDATOR_WARNING_MESSAGE];
               mode = (if is_True pre then PyStr ''before'' else PyStr ''after'')
           in (ws, Inr (validator_dec_store D fields' mode each_item always check_fields)))"

text \<open>
  The inner \<^verbatim>\<open>dec\<close> of \<^verbatim>\<open>field_validator\<close> over the store: the partial, the descriptor and
  the marker are constructed, in this order.
\<close>

definition field_validator_dec_store ::
  "decorators \<Rightarrow> pyobj list \<Rightarrow> pyobj \<Rightarrow> pyobj \<Rightarrow> decorator_store" where
  "field_validator_dec_store D fields' mode check_fields f s =
     (if is_instance_method_from_sig D f
      then (Inl (PydanticUserError ''`@field_validator` cannot be applied to instance methods''
                   ''validator-instance-method''), s)
      else
        let f' = ensure_classmethod_based_on_signature D f;
            (wrap, s1) = alloc s (ObjPartial ''make_generic_validator'' [(''mode'', mode)]);
            (validator_wrapper_info, s2) =
              alloc s1 (ObjDecoratorInfo (FieldValidatorDecoratorInfo fields' mode check_fields));
            (m, s3) = alloc s2 (ObjMarker f' validator_wrapper_info (PartialRef wrap))
        in (Inr m, s3))"

definition field_validator_store ::
  "decorators \<Rightarrow> pyobj \<Rightarrow> pyobj list \<Rightarrow> pyobj \<Rightarrow> pyobj \<Rightarrow> error + decorator_store" where
  "field_validator_store D field0 more_fields mode check_fields =
     (let fields' = field0 # more_fields
      in if isinstance_FunctionType (hd fields')
         then Inl (PydanticUserError
                 ''field_validators should be used with fields and keyword arguments, not bare. E.g. usage should be `@validator('<field_name>', ...)`''
                 ''validator-no-fields'')
         else if \<not> list_all isinstance_str fields'
         then Inl (PydanticUserError
                 ''field_validator fields should be passed as separate string args. E.g. usage should be `@validator('<field_name_1>', '<field_name_2>', ...)`''
                 ''validator-invalid-fields'')
         else Inr (field_validator_dec_store D fields' mode check_fields))"

text \<open>
  The inner \<^verbatim>\<open>dec\<close> of \<^verbatim>\<open>field_serializer\<close> over the store: the descriptor is constructed
  first, the partial while the arguments of the marker are evaluated, then the marker.
\<close>

definition field_serializer_dec_store ::
  "decorators \<Rightarrow> pyobj list \<Rightarrow> pyobj \<Rightarrow> pyobj \<Rightarrow> pyobj \<Rightarrow> pyobj \<Rightarrow> decorator_store" where
  "field_serializer_dec_store D fields' mode json_return_type when_used check_fields f s =
     (let type' = (if is_instance_method_from_sig D f
                   then PyStr ''field'' else PyStr ''general'');
          (dec_info, s1) =
            alloc s (ObjDecoratorInfo
                       (FieldSerializerDecoratorInfo fields' mode type' json_return_type
                          when_used check_fields));
          (shim', s2) =
            alloc s1 (ObjPartial ''make_generic_serializer''
                        [(''mode'', mode), (''type'', type')]);
          (m, s3) = alloc s2 (ObjMarker f dec_info (PartialRef shim'))
      in (Inr m, s3))"

definition field_serializer_store ::
  "decorators \<Rightarrow> pyobj list \<Rightarrow> pyobj \<Rightarrow> pyobj \<Rightarrow> pyobj \<Rightarrow> pyobj \<Rightarrow> error + decorator_store" where
  "field_serializer_store D fields' mode json_return_type when_used check_fields =
     Inr (field_serializer_dec_store D fields' mode json_return_type when_used check_fields)"

section \<open>Unfolding rules\<close>

lemmas entry_defs = root_validator_def validator_def field_validator_def field_serializer_def
  model_serializer_def model_validator_def is_True_def is_False_def is_None_def

lemmas dec_defs = root_validator_dec_def validator_dec_def field_validator_dec_def
  field_serializer_dec_def model_serializer_dec_def model_validator_dec_def

lemmas spec_defs = spec_decorators_def spec_is_instance_method_from_sig_def
  spec_ensure_classmethod_based_on_signature_def

lemmas store_defs = alloc_def store_get_def marker_decorator_info_def decorator_info_eq_def
  marker_at_def

lemma str_is_no_function: "isinstance_str x \<Longrightarrow> \<not> isinstance_FunctionType x"
  by (cases x) simp_all

section \<open>The store agrees with the contents\<close>

text \<open>
  Each decorator over the store fails exactly when the decorator on contents fails, with
  the same error and the store unchanged; when it succeeds, the marker it constructs has the
  contents the decorator on contents returns.
\<close>

lemma validator_dec_store_contents:
  "validator_dec_store D fields' mode each_item always check_fields f s = (r, s') \<Longrightarrow>
     (case r of
        Inl e \<Rightarrow> validator_dec D fields' mode each_item always check_fields f = Inl e \<and> s' = s
      | Inr a \<Rightarrow> \<exists>m. validator_dec D fields' mode each_item always check_fields f = Inr m
                      \<and> marker_at s' a = Some m)"
  by (auto simp add: validator_dec_store_def validator_dec_def store_defs Let_def nth_append
        split: if_splits)

lemma field_validator_dec_store_contents:
  "field_validator_dec_store D fields' mode check_fields f s = (r, s') \<Longrightarrow>
     (case r of
        Inl e \<Rightarrow> field_validator_dec D fields' mode check_fields f = Inl e \<and> s' = s
      | Inr a \<Rightarrow> \<exists>m. field_validator_dec D fields' mode check_fields f = Inr m
                      \<and> marker_at s' a = Some m)"
  by (auto simp add: field_validator_dec_store_def field_validator_dec_def store_defs Let_def
        nth_append split: if_splits)

lemma field_serializer_dec_store_contents:
  "field_serializer_dec_store D fields' mode json_return_type when_used check_fields f s = (r, s')
   \<Longrightarrow>
     (case r of
        Inl e \<Rightarrow> field_serializer_dec D fields' mode json_return_type when_used check_fields f
                   = Inl e \<and> s' = s
      | Inr a \<Rightarrow> \<exists>m. field_serializer_dec D fields' mode json_return_type when_used
                        check_fields f = Inr m
                      \<and> marker_at s' a = Some m)"
  by (auto simp add: field_serializer_dec_store_def field_serializer_dec_def store_defs Let_def
        nth_append split: if_splits)

text \<open>
  The entry points over the store emit the warnings of the entry points on contents and
  fail exactly when those fail, with the same error.
\<close>

lemma entry_points_store_outcome:
  "fst (validator_store D field0 more_fields pre each_item always check_fields allow_reuse) =
     fst (validator D field0 more_fields pre each_item always check_fields allow_reuse)
   \<and> (snd (validator_store D field0 more_fields pre each_item always check_fields allow_reuse)
        = Inl e)
      = (snd (validator D field0 more_fields pre each_item always check_fields allow_reuse)
        = Inl e)
   \<and> (field_validator_store D field0 more_fields mode check_fields' = Inl e)
      = (field_validator D field0 more_fields mode check_fields' = Inl e)"
  by (simp add: validator_store_def validator_def field_validator_store_def
        field_validator_def Let_def)

section \<open>The pre / skip\_on\_failure gate of root\_validator\<close>

text \<open>
  C1. \<^verbatim>\<open>root_validator\<close> with \<^verbatim>\<open>pre=False\<close> (given or defaulted) and a
  \<^verbatim>\<open>skip_on_failure\<close> that is not \<^verbatim>\<open>True\<close> raises the declaration error
  \<^verbatim>\<open>root-validator-pre-skip\<close>, so no decorator and no marker exist; with \<^verbatim>\<open>pre=False\<close>
  and \<^verbatim>\<open>skip_on_failure=True\<close> it returns a decorator, in mode after; with \<^verbatim>\<open>pre=True\<close>
  it returns a decorator, in mode before, whatever \<^verbatim>\<open>skip_on_failure\<close> is. The decorator
  returned produces a marker on every function that is not classified as instance-bound.
\<close>

theorem root_validator_pre_skip_gate:
  "(skip_on_failure \<noteq> PyBool True \<longrightarrow>
      snd (root_validator D (PyBool False) skip_on_failure allow_reuse) =
        Inl (PydanticUserError
          ''If you use `@root_validator` with pre=False (the default) you MUST specify `skip_on_failure=True`.''
          ''root-validator-pre-skip''))
   \<and> snd (root_validator D (PyBool False) (PyBool True) allow_reuse) =
        Inr (root_validator_dec D (PyStr ''after'')
               (Partial ''make_v1_generic_root_validator'' [(''pre'', PyBool False)]))
   \<and> snd (root_validator D (PyBool True) skip_on_failure allow_reuse) =
        Inr (root_validator_dec D (PyStr ''before'')
               (Partial ''make_v1_generic_root_validator'' [(''pre'', PyBool True)]))
   \<and> (\<not> is_instance_method_from_sig D f \<longrightarrow>
        root_validator_dec D mode wrap f =
          Inr \<lparr>wrapped = ensure_classmethod_based_on_signature D f,
               decorator_info = RootValidatorDecoratorInfo mode, shim = wrap\<rparr>)"
  by (simp add: root_validator_def root_validator_dec_def is_True_def is_False_def Let_def)

theorem root_validator_pre_skip_gate_witness:
  "PyBool False \<noteq> PyBool True
   \<and> snd (root_validator spec_decorators (PyBool False) (PyBool False) (PyBool False)) =
        Inl (PydanticUserError
          ''If you use `@root_validator` with pre=False (the default) you MUST specify `skip_on_failure=True`.''
          ''root-validator-pre-skip'')
   \<and> \<not> is_instance_method_from_sig spec_decorators (PyFunction ''check'' [''cls'', ''values''])
   \<and> root_validator_dec spec_decorators (PyStr ''after'')
        (Partial ''make_v1_generic_root_validator'' [(''pre'', PyBool False)])
        (PyFunction ''check'' [''cls'', ''values'']) =
          Inr \<lparr>wrapped = PyClassmethod (PyFunction ''check'' [''cls'', ''values'']),
               decorator_info = RootValidatorDecoratorInfo (PyStr ''after''),
               shim = Partial ''make_v1_generic_root_validator'' [(''pre'', PyBool False)]\<rparr>"
  using root_validator_pre_skip_gate [of "PyBool False" spec_decorators "PyBool False"
          "PyFunction ''check'' [''cls'', ''values'']" "PyStr ''after''"
          "Partial ''make_v1_generic_root_validator'' [(''pre'', PyBool False)]"]
  by (simp add: spec_defs)

section \<open>Validation of target names\<close>

text \<open>
  C2, as stated, fails for \<^verbatim>\<open>field_serializer\<close>: its body defines \<^verbatim>\<open>dec\<close> and returns it, with
  no test of the targets. With a plain function as the only target the call returns the
  decorator, and the decorator produces a marker whose descriptor lists that function as a
  target.
\<close>

theorem field_serializer_accepts_function_target_counterexample:
  "isinstance_FunctionType (PyFunction ''ser_x'' [''value''])
   \<and> \<not> isinstance_str (PyFunction ''ser_x'' [''value''])
   \<and> field_serializer spec_decorators [PyFunction ''ser_x'' [''value'']]
        (PyStr ''plain'') PyNone (PyStr ''always'') PyNone =
       Inr (field_serializer_dec spec_decorators [PyFunction ''ser_x'' [''value'']]
              (PyStr ''plain'') PyNone (PyStr ''always'') PyNone)
   \<and> field_serializer_dec spec_decorators [PyFunction ''ser_x'' [''value'']]
        (PyStr ''plain'') PyNone (PyStr ''always'') PyNone (PyFunction ''ser_y'' [''value'']) =
       Inr \<lparr>wrapped = PyFunction ''ser_y'' [''value''],
            decorator_info = FieldSerializerDecoratorInfo [PyFunction ''ser_x'' [''value'']]
              (PyStr ''plain'') (PyStr ''general'') PyNone (PyStr ''always'') PyNone,
            shim = Partial ''make_generic_serializer''
              [(''mode'', PyStr ''plain''), (''type'', PyStr ''general'')]\<rparr>"
  by (simp add: field_serializer_def field_serializer_dec_def spec_defs Let_def)

text \<open>
  C2, amended. For \<^verbatim>\<open>validator\<close> and \<^verbatim>\<open>field_validator\<close>: when the first positional target
  is a plain function the call raises the declaration error \<^verbatim>\<open>validator-no-fields\<close>; otherwise,
  when some target is not a string, it raises \<^verbatim>\<open>validator-invalid-fields\<close>. In both cases the
  call returns no decorator, so no marker comes from that declaration.
\<close>

theorem validator_targets_checked:
  "(isinstance_FunctionType field0 \<longrightarrow>
      snd (validator D field0 more_fields pre each_item always check_fields allow_reuse) =
        Inl (PydanticUserError
          ''validators should be used with fields and keyword arguments, not bare. E.g. usage should be `@validator('<field_name>', ...)`''
          ''validator-no-fields'')
      \<and> field_validator D field0 more_fields mode check_fields' =
        Inl (PydanticUserError
          ''field_validators should be used with fields and keyword arguments, not bare. E.g. usage should be `@validator('<field_name>', ...)`''
          ''validator-no-fields''))
   \<and> (\<not> isinstance_FunctionType field0 \<and> \<not> list_all isinstance_str (field0 # more_fields) \<longrightarrow>
      snd (validator D field0 more_fields pre each_item always check_fields allow_reuse) =
        Inl (PydanticUserError
          ''validator fields should be passed as separate string args. E.g. usage should be `@validator('<field_name_1>', '<field_name_2>', ...)`''
          ''validator-invalid-fields'')
      \<and> field_validator D field0 more_fields mode check_fields' =
        Inl (PydanticUserError
          ''field_validator fields should be passed as separate string args. E.g. usage should be `@validator('<field_name_1>', '<field_name_2>', ...)`''
          ''validator-invalid-fields''))
   \<and> (isinstance_FunctionType field0 \<or> \<not> list_all isinstance_str (field0 # more_fields) \<longrightarrow>
      isl (snd (validator D field0 more_fields pre each_item always check_fields allow_reuse))
      \<and> isl (field_validator D field0 more_fields mode check_fields'))"
  by (simp add: validator_def field_validator_def Let_def)

theorem validator_targets_checked_witness:
  "isinstance_FunctionType (PyFunction ''check'' [''cls'', ''v''])
   \<and> isl (snd (validator spec_decorators (PyFunction ''check'' [''cls'', ''v'']) []
            (PyBool False) (PyBool False) (PyBool False) PyNone (PyBool False)))
   \<and> isl (field_validator spec_decorators (PyFunction ''check'' [''cls'', ''v'']) []
            (PyStr ''after'') PyNone)
   \<and> \<not> isinstance_FunctionType (PyStr ''a'')
   \<and> \<not> list_all isinstance_str [PyStr ''a'', PyInt 3]
   \<and> snd (validator spec_decorators (PyStr ''a'') [PyInt 3]
            (PyBool False) (PyBool False) (PyBool False) PyNone (PyBool False)) =
        Inl (PydanticUserError
          ''validator fields should be passed as separate string args. E.g. usage should be `@validator('<field_name_1>', '<field_name_2>', ...)`''
          ''validator-invalid-fields'')"
  using validator_targets_checked [where ?field0.0 = "PyFunction ''check'' [''cls'', ''v'']"
          and more_fields = "[]" and D = spec_decorators and pre = "PyBool False"
          and each_item = "PyBool False" and always = "PyBool False" and check_fields = PyNone
          and allow_reuse = "PyBool False" and mode = "PyStr ''after''" and check_fields' = PyNone]
        validator_targets_checked [where ?field0.0 = "PyStr ''a''"
          and more_fields = "[PyInt 3]" and D = spec_decorators and pre = "PyBool False"
          and each_item = "PyBool False" and always = "PyBool False" and check_fields = PyNone
          and allow_reuse = "PyBool False" and mode = "PyStr ''after''" and check_fields' = PyNone]
  by simp

section \<open>Attachment points\<close>

text \<open>
  C3. The decorator returned by \<^verbatim>\<open>validator\<close>, by \<^verbatim>\<open>field_validator\<close> or by \<^verbatim>\<open>root_validator\<close>,
  applied to a function classified as instance-bound, raises an error whose message says the
  decorator cannot be applied to instance methods (a \<^verbatim>\<open>PydanticUserError\<close> with code
  \<^verbatim>\<open>validator-instance-method\<close> for the first two, a \<^verbatim>\<open>TypeError\<close> for \<^verbatim>\<open>root_validator\<close>), and
  no marker is produced; applied to a function not classified as instance-bound it returns a
  marker.
\<close>

theorem instance_method_rejected_by_validators:
  "snd (validator D field0 more_fields pre each_item always check_fields allow_reuse) = Inr vdec
   \<and> field_validator D field1 more_fields' mode check_fields' = Inr fdec
   \<and> snd (root_validator D pre' skip_on_failure allow_reuse') = Inr rdec
   \<longrightarrow>
     (is_instance_method_from_sig D f \<longrightarrow>
        vdec f = Inl (PydanticUserError ''`@validator` cannot be applied to instance methods''
                        ''validator-instance-method'')
        \<and> fdec f = Inl (PydanticUserError
                        ''`@field_validator` cannot be applied to instance methods''
                        ''validator-instance-method'')
        \<and> rdec f = Inl (TypeError ''`@root_validator` cannot be applied to instance methods''))
     \<and> (\<not> is_instance_method_from_sig D f \<longrightarrow>
        (\<exists>m. vdec f = Inr m) \<and> (\<exists>m. fdec f = Inr m) \<and> (\<exists>m. rdec f = Inr m))"
  by (auto simp add: validator_def field_validator_def root_validator_def dec_defs Let_def
        split: if_splits)

theorem instance_method_rejected_by_validators_witness:
  "snd (validator spec_decorators (PyStr ''a'') [] (PyBool False) (PyBool False) (PyBool False)
          PyNone (PyBool False)) =
     Inr (validator_dec spec_decorators [PyStr ''a''] (PyStr ''after'') (PyBool False)
            (PyBool False) PyNone)
   \<and> field_validator spec_decorators (PyStr ''a'') [] (PyStr ''after'') PyNone =
     Inr (field_validator_dec spec_decorators [PyStr ''a''] (PyStr ''after'') PyNone)
   \<and> snd (root_validator spec_decorators (PyBool True) (PyBool False) (PyBool False)) =
     Inr (root_validator_dec spec_decorators (PyStr ''before'')
            (Partial ''make_v1_generic_root_validator'' [(''pre'', PyBool True)]))
   \<and> is_instance_method_from_sig spec_decorators (PyFunction ''check'' [''self'', ''v''])
   \<and> validator_dec spec_decorators [PyStr ''a''] (PyStr ''after'') (PyBool False)
        (PyBool False) PyNone (PyFunction ''check'' [''self'', ''v'']) =
     Inl (PydanticUserError ''`@validator` cannot be applied to instance methods''
            ''validator-instance-method'')
   \<and> field_validator_dec spec_decorators [PyStr ''a''] (PyStr ''after'') PyNone
        (PyFunction ''check'' [''self'', ''v'']) =
     Inl (PydanticUserError ''`@field_validator` cannot be applied to instance methods''
            ''validator-instance-method'')
   \<and> root_validator_dec spec_decorators (PyStr ''before'')
        (Partial ''make_v1_generic_root_validator'' [(''pre'', PyBool True)])
        (PyFunction ''check'' [''self'', ''v'']) =
     Inl (TypeError ''`@root_validator` cannot be applied to instance methods'')
   \<and> \<not> is_instance_method_from_sig spec_decorators (PyFunction ''check'' [''cls'', ''v''])
   \<and> \<not> isl (validator_dec spec_decorators [PyStr ''a''] (PyStr ''after'') (PyBool False)
        (PyBool False) PyNone (PyFunction ''check'' [''cls'', ''v'']))"
proof -
  let ?D = spec_decorators
  let ?vdec = "validator_dec ?D [PyStr ''a''] (PyStr ''after'') (PyBool False) (PyBool False) PyNone"
  let ?fdec = "field_validator_dec ?D [PyStr ''a''] (PyStr ''after'') PyNone"
  let ?rdec = "root_validator_dec ?D (PyStr ''before'')
                 (Partial ''make_v1_generic_root_validator'' [(''pre'', PyBool True)])"
  have v: "snd (validator ?D (PyStr ''a'') [] (PyBool False) (PyBool False) (PyBool False)
             PyNone (PyBool False)) = Inr ?vdec"
    by (simp add: validator_def is_True_def Let_def)
  have fv: "field_validator ?D (PyStr ''a'') [] (PyStr ''after'') PyNone = Inr ?fdec"
    by (simp add: field_validator_def Let_def)
  have r: "snd (root_validator ?D (PyBool True) (PyBool False) (PyBool False)) = Inr ?rdec"
    by (simp add: root_validator_def is_True_def is_False_def Let_def)
  have inst: "is_instance_method_from_sig ?D (PyFunction ''check'' [''self'', ''v''])"
    by (simp add: spec_defs)
  have ninst: "\<not> is_instance_method_from_sig ?D (PyFunction ''check'' [''cls'', ''v''])"
    by (simp add: spec_defs)
  from instance_method_rejected_by_validators
         [where D = ?D and vdec = ?vdec and fdec = ?fdec and rdec = ?rdec
            and f = "PyFunction ''check'' [''self'', ''v'']"] v fv r inst
  have bad: "?vdec (PyFunction ''check'' [''self'', ''v'']) =
               Inl (PydanticUserError ''`@validator` cannot be applied to instance methods''
                      ''validator-instance-method'')
             \<and> ?fdec (PyFunction ''check'' [''self'', ''v'']) =
               Inl (PydanticUserError ''`@field_validator` cannot be applied to instance methods''
                      ''validator-instance-method'')
             \<and> ?rdec (PyFunction ''check'' [''self'', ''v'']) =
               Inl (TypeError ''`@root_validator` cannot be applied to instance methods'')"
    by blast
  from instance_method_rejected_by_validators
         [where D = ?D and vdec = ?vdec and fdec = ?fdec and rdec = ?rdec
            and f = "PyFunction ''check'' [''cls'', ''v'']"] v fv r ninst
  have good: "\<exists>m. ?vdec (PyFunction ''check'' [''cls'', ''v'']) = Inr m"
    by blast
  then have "\<not> isl (?vdec (PyFunction ''check'' [''cls'', ''v'']))"
    by auto
  with v fv r inst ninst bad show ?thesis
    by blast
qed

text \<open>
  C4. \<^verbatim>\<open>model_serializer\<close> applied to a staticmethod or classmethod wrapper or to a function
  that is not classified as instance-bound raises the declaration error
  \<^verbatim>\<open>model-serializer-instance-method\<close>; applied to an instance-bound function that is no such
  wrapper it returns a marker that wraps the function unchanged. This holds for both ways of
  applying it: the bare call \<^verbatim>\<open>model_serializer(f)\<close> on a function, which returns the marker
  or raises the error itself, and the decorator that the call with keyword options only
  returns.
\<close>

theorem model_serializer_requires_instance_method:
  "model_serializer D PyNone mode json_return_type =
     Inr (Decorator (model_serializer_dec D mode json_return_type))
   \<and> (isinstance_staticmethod_classmethod f \<or> \<not> is_instance_method_from_sig D f \<longrightarrow>
        model_serializer_dec D mode json_return_type f =
          Inl (PydanticUserError ''`@model_serializer` must be applied to instance methods''
                 ''model-serializer-instance-method''))
   \<and> (\<not> isinstance_staticmethod_classmethod f \<and> is_instance_method_from_sig D f \<longrightarrow>
        model_serializer_dec D mode json_return_type f =
          Inr \<lparr>wrapped = f,
               decorator_info = ModelSerializerDecoratorInfo mode json_return_type,
               shim = Partial ''make_generic_model_serializer'' [(''mode'', mode)]\<rparr>)
   \<and> (f \<noteq> PyNone
        \<and> (isinstance_staticmethod_classmethod f \<or> \<not> is_instance_method_from_sig D f) \<longrightarrow>
        model_serializer D f mode json_return_type =
          Inl (PydanticUserError ''`@model_serializer` must be applied to instance methods''
                 ''model-serializer-instance-method''))
   \<and> (f \<noteq> PyNone
        \<and> \<not> isinstance_staticmethod_classmethod f \<and> is_instance_method_from_sig D f \<longrightarrow>
        model_serializer D f mode json_return_type =
          Inr (Marker \<lparr>wrapped = f,
                 decorator_info = ModelSerializerDecoratorInfo mode json_return_type,
                 shim = Partial ''make_generic_model_serializer'' [(''mode'', mode)]\<rparr>))"
  by (simp add: model_serializer_def model_serializer_dec_def is_None_def Let_def)

theorem model_serializer_requires_instance_method_witness:
  "isinstance_staticmethod_classmethod (PyStaticmethod (PyFunction ''ser'' [''self'']))
   \<and> PyStaticmethod (PyFunction ''ser'' [''self'']) \<noteq> PyNone
   \<and> model_serializer_dec spec_decorators (PyStr ''plain'') PyNone
        (PyStaticmethod (PyFunction ''ser'' [''self''])) =
       Inl (PydanticUserError ''`@model_serializer` must be applied to instance methods''
              ''model-serializer-instance-method'')
   \<and> model_serializer spec_decorators (PyStaticmethod (PyFunction ''ser'' [''self'']))
        (PyStr ''plain'') PyNone =
       Inl (PydanticUserError ''`@model_serializer` must be applied to instance methods''
              ''model-serializer-instance-method'')
   \<and> \<not> is_instance_method_from_sig spec_decorators (PyFunction ''ser'' [''cls''])
   \<and> PyFunction ''ser'' [''cls''] \<noteq> PyNone
   \<and> model_serializer_dec spec_decorators (PyStr ''plain'') PyNone (PyFunction ''ser'' [''cls'']) =
       Inl (PydanticUserError ''`@model_serializer` must be applied to instance methods''
              ''model-serializer-instance-method'')
   \<and> model_serializer spec_decorators (PyFunction ''ser'' [''cls'']) (PyStr ''wrap'')
        (PyObject ''str'') =
       Inl (PydanticUserError ''`@model_serializer` must be applied to instance methods''
              ''model-serializer-instance-method'')
   \<and> \<not> isinstance_staticmethod_classmethod (PyFunction ''ser'' [''self''])
   \<and> is_instance_method_from_sig spec_decorators (PyFunction ''ser'' [''self''])
   \<and> PyFunction ''ser'' [''self''] \<noteq> PyNone
   \<and> model_serializer_dec spec_decorators (PyStr ''plain'') PyNone (PyFunction ''ser'' [''self'']) =
       Inr \<lparr>wrapped = PyFunction ''ser'' [''self''],
            decorator_info = ModelSerializerDecoratorInfo (PyStr ''plain'') PyNone,
            shim = Partial ''make_generic_model_serializer'' [(''mode'', PyStr ''plain'')]\<rparr>
   \<and> model_serializer spec_decorators (PyFunction ''ser'' [''self'']) (PyStr ''wrap'')
        (PyObject ''str'') =
       Inr (Marker \<lparr>wrapped = PyFunction ''ser'' [''self''],
              decorator_info = ModelSerializerDecoratorInfo (PyStr ''wrap'') (PyObject ''str''),
              shim = Partial ''make_generic_model_serializer'' [(''mode'', PyStr ''wrap'')]\<rparr>)"
  using model_serializer_requires_instance_method
          [where D = spec_decorators and mode = "PyStr ''plain''" and json_return_type = PyNone
             and f = "PyStaticmethod (PyFunction ''ser'' [''self''])"]
        model_serializer_requires_instance_method
          [where D = spec_decorators and mode = "PyStr ''plain''" and json_return_type = PyNone
             and f = "PyFunction ''ser'' [''cls'']"]
        model_serializer_requires_instance_method
          [where D = spec_decorators and mode = "PyStr ''wrap''"
             and json_return_type = "PyObject ''str''" and f = "PyFunction ''ser'' [''cls'']"]
        model_serializer_requires_instance_method
          [where D = spec_decorators and mode = "PyStr ''plain''" and json_return_type = PyNone
             and f = "PyFunction ''ser'' [''self'']"]
        model_serializer_requires_instance_method
          [where D = spec_decorators and mode = "PyStr ''wrap''"
             and json_return_type = "PyObject ''str''" and f = "PyFunction ''ser'' [''self'']"]
  by (simp add: spec_defs)

section \<open>Descriptors\<close>

text \<open>
  C5. Calling the same entry point (\<^verbatim>\<open>validator\<close>, \<^verbatim>\<open>field_validator\<close>, \<^verbatim>\<open>field_serializer\<close>)
  twice with the same targets, mode and options, and applying the two decorators to the same
  function, one after the other from any store, succeeds both times on validated inputs
  (string targets and a function not classified as instance-bound, where the entry point
  checks these). The two markers are different objects and so are their two descriptors,
  the first pair is still in the store after the second run, and the two descriptors are
  equal by value: each is the record of the targets, the mode and the options of the call
  (and, for \<^verbatim>\<open>field_serializer\<close>, of the classification of the function).
\<close>

theorem descriptors_equal_by_value_not_identity:
  "(list_all isinstance_str (field0 # more_fields) \<and> \<not> is_instance_method_from_sig D f \<longrightarrow>
     (\<exists>dec1 dec2 m1 m2 s1 s2 d1 d2.
        snd (validator_store D field0 more_fields pre each_item always check_fields allow_reuse)
          = Inr dec1
      \<and> dec1 f s0 = (Inr m1, s1)
      \<and> snd (validator_store D field0 more_fields pre each_item always check_fields allow_reuse)
          = Inr dec2
      \<and> dec2 f s1 = (Inr m2, s2)
      \<and> m1 \<noteq> m2
      \<and> marker_decorator_info s2 m1 = Some d1
      \<and> marker_decorator_info s2 m2 = Some d2
      \<and> d1 \<noteq> d2
      \<and> decorator_info_eq s2 d1 d2
      \<and> store_get s2 d1 =
          Some (ObjDecoratorInfo
                  (ValidatorDecoratorInfo (field0 # more_fields)
                     (if pre = PyBool True then PyStr ''before'' else PyStr ''after'')
                     each_item always check_fields))))
   \<and> (list_all isinstance_str (field1 # more_fields') \<and> \<not> is_instance_method_from_sig D g \<longrightarrow>
     (\<exists>dec1 dec2 m1 m2 s1 s2 d1 d2.
        field_validator_store D field1 more_fields' mode check_fields' = Inr dec1
      \<and> dec1 g s0 = (Inr m1, s1)
      \<and> field_validator_store D field1 more_fields' mode check_fields' = Inr dec2
      \<and> dec2 g s1 = (Inr m2, s2)
      \<and> m1 \<noteq> m2
      \<and> marker_decorator_info s2 m1 = Some d1
      \<and> marker_decorator_info s2 m2 = Some d2
      \<and> d1 \<noteq> d2
      \<and> decorator_info_eq s2 d1 d2
      \<and> store_get s2 d1 =
          Some (ObjDecoratorInfo
                  (FieldValidatorDecoratorInfo (field1 # more_fields') mode check_fields'))))
   \<and> (\<exists>dec1 dec2 m1 m2 s1 s2 d1 d2.
        field_serializer_store D fields'' mode' json_return_type when_used check_fields''
          = Inr dec1
      \<and> dec1 h s0 = (Inr m1, s1)
      \<and> field_serializer_store D fields'' mode' json_return_type when_used check_fields''
          = Inr dec2
      \<and> dec2 h s1 = (Inr m2, s2)
      \<and> m1 \<noteq> m2
      \<and> marker_decorator_info s2 m1 = Some d1
      \<and> marker_decorator_info s2 m2 = Some d2
      \<and> d1 \<noteq> d2
      \<and> decorator_info_eq s2 d1 d2
      \<and> store_get s2 d1 =
          Some (ObjDecoratorInfo
                  (FieldSerializerDecoratorInfo fields'' mode'
                     (if is_instance_method_from_sig D h then PyStr ''field''
                      else PyStr ''general'')
                     json_return_type when_used check_fields'')))"
proof (intro conjI impI)
  assume a: "list_all isinstance_str (field0 # more_fields) \<and> \<not> is_instance_method_from_sig D f"
  then have "\<not> isinstance_FunctionType field0"
    by (simp add: str_is_no_function)
  with a show "\<exists>dec1 dec2 m1 m2 s1 s2 d1 d2.
        snd (validator_store D field0 more_fields pre each_item always check_fields allow_reuse)
          = Inr dec1
      \<and> dec1 f s0 = (Inr m1, s1)
      \<and> snd (validator_store D field0 more_fields pre each_item always check_fields allow_reuse)
          = Inr dec2
      \<and> dec2 f s1 = (Inr m2, s2)
      \<and> m1 \<noteq> m2
      \<and> marker_decorator_info s2 m1 = Some d1
      \<and> marker_decorator_info s2 m2 = Some d2
      \<and> d1 \<noteq> d2
      \<and> decorator_info_eq s2 d1 d2
      \<and> store_get s2 d1 =
          Some (ObjDecoratorInfo
                  (ValidatorDecoratorInfo (field0 # more_fields)
                     (if pre = PyBool True then PyStr ''before'' else PyStr ''after'')
                     each_item always check_fields))"
    by (simp add: validator_store_def validator_dec_store_def store_defs is_True_def Let_def
          nth_append)
next
  assume a: "list_all isinstance_str (field1 # more_fields') \<and> \<not> is_instance_method_from_sig D g"
  then have "\<not> isinstance_FunctionType field1"
    by (simp add: str_is_no_function)
  with a show "\<exists>dec1 dec2 m1 m2 s1 s2 d1 d2.
        field_validator_store D field1 more_fields' mode check_fields' = Inr dec1
      \<and> dec1 g s0 = (Inr m1, s1)
      \<and> field_validator_store D field1 more_fields' mode check_fields' = Inr dec2
      \<and> dec2 g s1 = (Inr m2, s2)
      \<and> m1 \<noteq> m2
      \<and> marker_decorator_info s2 m1 = Some d1
      \<and> marker_decorator_info s2 m2 = Some d2
      \<and> d1 \<noteq> d2
      \<and> decorator_info_eq s2 d1 d2
      \<and> store_get s2 d1 =
          Some (ObjDecoratorInfo
                  (FieldValidatorDecoratorInfo (field1 # more_fields') mode check_fields'))"
    by (simp add: field_validator_store_def field_validator_dec_store_def store_defs Let_def
          nth_append)
next
  show "\<exists>dec1 dec2 m1 m2 s1 s2 d1 d2.
        field_serializer_store D fields'' mode' json_return_type when_used check_fields''
          = Inr dec1
      \<and> dec1 h s0 = (Inr m1, s1)
      \<and> field_serializer_store D fields'' mode' json_return_type when_used check_fields''
          = Inr dec2
      \<and> dec2 h s1 = (Inr m2, s2)
      \<and> m1 \<noteq> m2
      \<and> marker_decorator_info s2 m1 = Some d1
      \<and> marker_decorator_info s2 m2 = Some d2
      \<and> d1 \<noteq> d2
      \<and> decorator_info_eq s2 d1 d2
      \<and> store_get s2 d1 =
          Some (ObjDecoratorInfo
                  (FieldSerializerDecoratorInfo fields'' mode'
                     (if is_instance_method_from_sig D h then PyStr ''field''
                      else PyStr ''general'')
                     json_return_type when_used check_fields''))"
    by (simp add: field_serializer_store_def field_serializer_dec_store_def store_defs Let_def
          nth_append)
qed

theorem descriptors_equal_by_value_not_identity_witness:
  "list_all isinstance_str [PyStr ''age'']
   \<and> \<not> is_instance_method_from_sig spec_decorators (PyFunction ''check'' [''cls'', ''v''])
   \<and> field_validator_store spec_decorators (PyStr ''age'') [] (PyStr ''after'') PyNone =
       Inr (field_validator_dec_store spec_decorators [PyStr ''age''] (PyStr ''after'') PyNone)
   \<and> field_validator_dec_store spec_decorators [PyStr ''age''] (PyStr ''after'') PyNone
        (PyFunction ''check'' [''cls'', ''v'']) [] =
       (Inr 2,
        [ObjPartial ''make_generic_validator'' [(''mode'', PyStr ''after'')],
         ObjDecoratorInfo (FieldValidatorDecoratorInfo [PyStr ''age''] (PyStr ''after'') PyNone),
         ObjMarker (PyClassmethod (PyFunction ''check'' [''cls'', ''v''])) 1 (PartialRef 0)])
   \<and> field_validator_dec_store spec_decorators [PyStr ''age''] (PyStr ''after'') PyNone
        (PyFunction ''check'' [''cls'', ''v''])
        [ObjPartial ''make_generic_validator'' [(''mode'', PyStr ''after'')],
         ObjDecoratorInfo (FieldValidatorDecoratorInfo [PyStr ''age''] (PyStr ''after'') PyNone),
         ObjMarker (PyClassmethod (PyFunction ''check'' [''cls'', ''v''])) 1 (PartialRef 0)] =
       (Inr 5,
        [ObjPartial ''make_generic_validator'' [(''mode'', PyStr ''after'')],
         ObjDecoratorInfo (FieldValidatorDecoratorInfo [PyStr ''age''] (PyStr ''after'') PyNone),
         ObjMarker (PyClassmethod (PyFunction ''check'' [''cls'', ''v''])) 1 (PartialRef 0),
         ObjPartial ''make_generic_validator'' [(''mode'', PyStr ''after'')],
         ObjDecoratorInfo (FieldValidatorDecoratorInfo [PyStr ''age''] (PyStr ''after'') PyNone),
         ObjMarker (PyClassmethod (PyFunction ''check'' [''cls'', ''v''])) 4 (PartialRef 3)])
   \<and> (2::nat) \<noteq> 5
   \<and> marker_decorator_info
        [ObjPartial ''make_generic_validator'' [(''mode'', PyStr ''after'')],
         ObjDecoratorInfo (FieldValidatorDecoratorInfo [PyStr ''age''] (PyStr ''after'') PyNone),
         ObjMarker (PyClassmethod (PyFunction ''check'' [''cls'', ''v''])) 1 (PartialRef 0),
         ObjPartial ''make_generic_validator'' [(''mode'', PyStr ''after'')],
         ObjDecoratorInfo (FieldValidatorDecoratorInfo [PyStr ''age''] (PyStr ''after'') PyNone),
         ObjMarker (PyClassmethod (PyFunction ''check'' [''cls'', ''v''])) 4 (PartialRef 3)] 2
       = Some 1
   \<and> marker_decorator_info
        [ObjPartial ''make_generic_validator'' [(''mode'', PyStr ''after'')],
         ObjDecoratorInfo (FieldValidatorDecoratorInfo [PyStr ''age''] (PyStr ''after'') PyNone),
         ObjMarker (PyClassmethod (PyFunction ''check'' [''cls'', ''v''])) 1 (PartialRef 0),
         ObjPartial ''make_generic_validator'' [(''mode'', PyStr ''after'')],
         ObjDecoratorInfo (FieldValidatorDecoratorInfo [PyStr ''age''] (PyStr ''after'') PyNone),
         ObjMarker (PyClassmethod (PyFunction ''check'' [''cls'', ''v''])) 4 (PartialRef 3)] 5
       = Some 4
   \<and> (1::nat) \<noteq> 4
   \<and> decorator_info_eq
        [ObjPartial ''make_generic_validator'' [(''mode'', PyStr ''after'')],
         ObjDecoratorInfo (FieldValidatorDecoratorInfo [PyStr ''age''] (PyStr ''after'') PyNone),
         ObjMarker (PyClassmethod (PyFunction ''check'' [''cls'', ''v''])) 1 (PartialRef 0),
         ObjPartial ''make_generic_validator'' [(''mode'', PyStr ''after'')],
         ObjDecoratorInfo (FieldValidatorDecoratorInfo [PyStr ''age''] (PyStr ''after'') PyNone),
         ObjMarker (PyClassmethod (PyFunction ''check'' [''cls'', ''v''])) 4 (PartialRef 3)] 1 4"
proof -
  let ?D = spec_decorators
  let ?g = "PyFunction ''check'' [''cls'', ''v'']"
  let ?dec = "field_validator_dec_store ?D [PyStr ''age''] (PyStr ''after'') PyNone"
  let ?s1 = "[ObjPartial ''make_generic_validator'' [(''mode'', PyStr ''after'')],
         ObjDecoratorInfo (FieldValidatorDecoratorInfo [PyStr ''age''] (PyStr ''after'') PyNone),
         ObjMarker (PyClassmethod ?g) 1 (PartialRef 0)]"
  let ?s2 = "?s1 @ [ObjPartial ''make_generic_validator'' [(''mode'', PyStr ''after'')],
         ObjDecoratorInfo (FieldValidatorDecoratorInfo [PyStr ''age''] (PyStr ''after'') PyNone),
         ObjMarker (PyClassmethod ?g) 4 (PartialRef 3)]"
  have targets: "list_all isinstance_str [PyStr ''age'']"
    by simp
  have ninst: "\<not> is_instance_method_from_sig ?D ?g"
    by (simp add: spec_defs)
  have call: "field_validator_store ?D (PyStr ''age'') [] (PyStr ''after'') PyNone = Inr ?dec"
    by (simp add: field_validator_store_def Let_def)
  have run1: "?dec ?g [] = (Inr 2, ?s1)"
    by (simp add: field_validator_dec_store_def alloc_def spec_defs Let_def)
  have run2: "?dec ?g ?s1 = (Inr 5, ?s2)"
    by (simp add: field_validator_dec_store_def alloc_def spec_defs Let_def)
  have info1: "marker_decorator_info ?s2 2 = Some 1"
    by (simp add: marker_decorator_info_def store_get_def)
  have info2: "marker_decorator_info ?s2 5 = Some 4"
    by (simp add: marker_decorator_info_def store_get_def)
  from descriptors_equal_by_value_not_identity
         [where D = ?D and ?field1.0 = "PyStr ''age''" and more_fields' = "[]"
            and mode = "PyStr ''after''" and check_fields' = PyNone and g = ?g and ?s0.0 = "[]"]
       targets ninst call run1 run2 info1 info2
  have eq: "decorator_info_eq ?s2 1 4"
    by auto
  from targets ninst call run1 run2 info1 info2 eq show ?thesis
    by simp
qed



section \<open>field\_serializer and model\_validator make no attachment check\<close>

text \<open>
  C7, as stated, fails: \<^verbatim>\<open>field_serializer\<close> applied to a function classified as
  instance-bound raises nothing. It returns a marker whose descriptor has type \<^verbatim>\<open>field\<close>.
\<close>

theorem field_serializer_accepts_instance_method_counterexample:
  "is_instance_method_from_sig spec_decorators (PyFunction ''ser_x'' [''self'', ''value''])
   \<and> field_serializer spec_decorators [PyStr ''x''] (PyStr ''plain'') PyNone (PyStr ''always'')
        PyNone =
       Inr (field_serializer_dec spec_decorators [PyStr ''x''] (PyStr ''plain'') PyNone
              (PyStr ''always'') PyNone)
   \<and> field_serializer_dec spec_decorators [PyStr ''x''] (PyStr ''plain'') PyNone
        (PyStr ''always'') PyNone (PyFunction ''ser_x'' [''self'', ''value'']) =
       Inr \<lparr>wrapped = PyFunction ''ser_x'' [''self'', ''value''],
            decorator_info = FieldSerializerDecoratorInfo [PyStr ''x''] (PyStr ''plain'')
              (PyStr ''field'') PyNone (PyStr ''always'') PyNone,
            shim = Partial ''make_generic_serializer''
              [(''mode'', PyStr ''plain''), (''type'', PyStr ''field'')]\<rparr>"
  by (simp add: field_serializer_def field_serializer_dec_def spec_defs Let_def)

text \<open>
  C7, amended. \<^verbatim>\<open>field_serializer\<close> accepts a function classified as instance-bound: the
  decorator returns a marker that wraps the function unchanged, and the descriptor and the
  shim record the type \<^verbatim>\<open>field\<close>.
\<close>

theorem field_serializer_classifies_instance_method:
  "field_serializer D fields' mode json_return_type when_used check_fields =
     Inr (field_serializer_dec D fields' mode json_return_type when_used check_fields)
   \<and> (is_instance_method_from_sig D f \<longrightarrow>
        field_serializer_dec D fields' mode json_return_type when_used check_fields f =
          Inr \<lparr>wrapped = f,
               decorator_info = FieldSerializerDecoratorInfo fields' mode (PyStr ''field'')
                                  json_return_type when_used check_fields,
               shim = Partial ''make_generic_serializer''
                        [(''mode'', mode), (''type'', PyStr ''field'')]\<rparr>)"
  by (simp add: field_serializer_def field_serializer_dec_def Let_def)

theorem field_serializer_classifies_instance_method_witness:
  "is_instance_method_from_sig spec_decorators (PyFunction ''ser_x'' [''self'', ''value'', ''nxt''])
   \<and> field_serializer_dec spec_decorators [PyStr ''x''] (PyStr ''wrap'') PyNone
        (PyStr ''json'') (PyBool True) (PyFunction ''ser_x'' [''self'', ''value'', ''nxt'']) =
       Inr \<lparr>wrapped = PyFunction ''ser_x'' [''self'', ''value'', ''nxt''],
            decorator_info = FieldSerializerDecoratorInfo [PyStr ''x''] (PyStr ''wrap'')
              (PyStr ''field'') PyNone (PyStr ''json'') (PyBool True),
            shim = Partial ''make_generic_serializer''
              [(''mode'', PyStr ''wrap''), (''type'', PyStr ''field'')]\<rparr>"
  using field_serializer_classifies_instance_method
          [where D = spec_decorators and fields' = "[PyStr ''x'']" and mode = "PyStr ''wrap''"
             and json_return_type = PyNone and when_used = "PyStr ''json''"
             and check_fields = "PyBool True"
             and f = "PyFunction ''ser_x'' [''self'', ''value'', ''nxt'']"]
  by (simp add: spec_defs)

text \<open>
  C8, as stated, fails: \<^verbatim>\<open>model_validator(mode='after')\<close> applied to a function that is not
  instance-bound raises nothing and returns a marker.
\<close>

theorem model_validator_after_unchecked_counterexample:
  "\<not> is_instance_method_from_sig spec_decorators (PyFunction ''check'' [''cls'', ''data''])
   \<and> model_validator (PyStr ''after'') = Inr (model_validator_dec (PyStr ''after''))
   \<and> model_validator_dec (PyStr ''after'') (PyFunction ''check'' [''cls'', ''data'']) =
       Inr \<lparr>wrapped = PyFunction ''check'' [''cls'', ''data''],
            decorator_info = ModelValidatorDecoratorInfo (PyStr ''after''),
            shim = Partial ''make_generic_validator'' [(''mode'', PyStr ''after'')]\<rparr>"
  by (simp add: model_validator_def model_validator_dec_def spec_defs Let_def)

text \<open>
  C8, amended. \<^verbatim>\<open>model_validator\<close> makes no attachment check at declaration: for every mode,
  \<^verbatim>\<open>after\<close> included, and every function, the decorator returns a marker that wraps the
  function unchanged, with that mode in the descriptor and in the shim.
\<close>

theorem model_validator_always_marks:
  "model_validator mode = Inr (model_validator_dec mode)
   \<and> model_validator_dec mode f =
       Inr \<lparr>wrapped = f, decorator_info = ModelValidatorDecoratorInfo mode,
            shim = Partial ''make_generic_validator'' [(''mode'', mode)]\<rparr>"
  by (simp add: model_validator_def model_validator_dec_def Let_def)

theorem model_validator_always_marks_witness:
  "model_validator (PyStr ''after'') = Inr (model_validator_dec (PyStr ''after''))
   \<and> model_validator_dec (PyStr ''after'') (PyFunction ''check'' [''self'']) =
       Inr \<lparr>wrapped = PyFunction ''check'' [''self''],
            decorator_info = ModelValidatorDecoratorInfo (PyStr ''after''),
            shim = Partial ''make_generic_validator'' [(''mode'', PyStr ''after'')]\<rparr>"
  using model_validator_always_marks [of "PyStr ''after''" "PyFunction ''check'' [''self'']"]
  by simp

section \<open>allow\_reuse\<close>

text \<open>
  C9. For \<^verbatim>\<open>validator\<close> and \<^verbatim>\<open>root_validator\<close>, a call with \<^verbatim>\<open>allow_reuse=True\<close> emits the
  \<^verbatim>\<open>allow_reuse\<close> deprecation warning first and otherwise does what the call without
  \<^verbatim>\<open>allow_reuse\<close> does: the same further warnings and the same outcome, that is the same
  error or the same decorator, hence the same marker on every function. The call without
  \<^verbatim>\<open>allow_reuse\<close> does not emit that warning.
\<close>

theorem allow_reuse_only_warns:
  "validator D field0 more_fields pre each_item always check_fields (PyBool True) =
     (DeprecationWarning ALLOW_REUSE_WARNING_MESSAGE #
        fst (validator D field0 more_fields pre each_item always check_fields (PyBool False)),
      snd (validator D field0 more_fields pre each_item always check_fields (PyBool False)))
   \<and> DeprecationWarning ALLOW_REUSE_WARNING_MESSAGE \<notin>
        set (fst (validator D field0 more_fields pre each_item always check_fields (PyBool False)))
   \<and> root_validator D pre' skip_on_failure (PyBool True) =
     (DeprecationWarning ALLOW_REUSE_WARNING_MESSAGE #
        fst (root_validator D pre' skip_on_failure (PyBool False)),
      snd (root_validator D pre' skip_on_failure (PyBool False)))
   \<and> DeprecationWarning ALLOW_REUSE_WARNING_MESSAGE \<notin>
        set (fst (root_validator D pre' skip_on_failure (PyBool False)))"
  by (simp add: validator_def root_validator_def is_True_def Let_def
        ALLOW_REUSE_WARNING_MESSAGE_def V1_VALIDATOR_WARNING_MESSAGE_def)

theorem allow_reuse_only_warns_witness:
  "validator spec_decorators (PyStr ''a'') [PyStr ''b''] (PyBool True) (PyBool False)
     (PyBool True) PyNone (PyBool True) =
     ([DeprecationWarning ALLOW_REUSE_WARNING_MESSAGE,
       DeprecationWarning V1_VALIDATOR_WARNING_MESSAGE],
      Inr (validator_dec spec_decorators [PyStr ''a'', PyStr ''b''] (PyStr ''before'')
             (PyBool False) (PyBool True) PyNone))
   \<and> validator spec_decorators (PyStr ''a'') [PyStr ''b''] (PyBool True) (PyBool False)
     (PyBool True) PyNone (PyBool False) =
     ([DeprecationWarning V1_VALIDATOR_WARNING_MESSAGE],
      Inr (validator_dec spec_decorators [PyStr ''a'', PyStr ''b''] (PyStr ''before'')
             (PyBool False) (PyBool True) PyNone))"
proof -
  have plain: "validator spec_decorators (PyStr ''a'') [PyStr ''b''] (PyBool True)
                 (PyBool False) (PyBool True) PyNone (PyBool False) =
     ([DeprecationWarning V1_VALIDATOR_WARNING_MESSAGE],
      Inr (validator_dec spec_decorators [PyStr ''a'', PyStr ''b''] (PyStr ''before'')
             (PyBool False) (PyBool True) PyNone))"
    by (simp add: validator_def is_True_def Let_def)
  from allow_reuse_only_warns
         [where D = spec_decorators and ?field0.0 = "PyStr ''a''" and more_fields = "[PyStr ''b'']"
            and pre = "PyBool True" and each_item = "PyBool False" and always = "PyBool True"
            and check_fields = PyNone]
       plain
  show ?thesis
    by simp
qed

section \<open>model\_serializer as a bare decorator\<close>

text \<open>
  C10. \<^verbatim>\<open>model_serializer\<close> called with keyword options only returns its decorator. Called
  on an instance-bound function \<^verbatim>\<open>f\<close> directly, it returns the marker that
  \<^verbatim>\<open>model_serializer()(f)\<close> returns: \<^verbatim>\<open>f\<close> itself wrapped, mode \<^verbatim>\<open>plain\<close> and
  \<^verbatim>\<open>json_return_type\<close> \<^verbatim>\<open>None\<close> in the descriptor; for every \<^verbatim>\<open>f\<close> other than \<^verbatim>\<open>None\<close> the
  bare call returns a marker exactly when the decorator does on \<^verbatim>\<open>f\<close>, and the same one. The
  entry points \<^verbatim>\<open>validator\<close> and \<^verbatim>\<open>field_validator\<close> raise when they are given a plain function
  in this way.
\<close>

theorem model_serializer_bare_decorator:
  "model_serializer D PyNone mode json_return_type =
     Inr (Decorator (model_serializer_dec D mode json_return_type))
   \<and> (f \<noteq> PyNone \<and> \<not> isinstance_staticmethod_classmethod f
        \<and> is_instance_method_from_sig D f \<longrightarrow>
        model_serializer D f (PyStr ''plain'') PyNone =
          Inr (Marker \<lparr>wrapped = f,
                 decorator_info = ModelSerializerDecoratorInfo (PyStr ''plain'') PyNone,
                 shim = Partial ''make_generic_model_serializer''
                          [(''mode'', PyStr ''plain'')]\<rparr>)
        \<and> model_serializer_dec D (PyStr ''plain'') PyNone f =
          Inr \<lparr>wrapped = f,
               decorator_info = ModelSerializerDecoratorInfo (PyStr ''plain'') PyNone,
               shim = Partial ''make_generic_model_serializer''
                        [(''mode'', PyStr ''plain'')]\<rparr>)
   \<and> (f \<noteq> PyNone \<longrightarrow>
        (model_serializer D f mode json_return_type = Inr (Marker m))
          = (model_serializer_dec D mode json_return_type f = Inr m))
   \<and> (isinstance_FunctionType f \<longrightarrow>
        isl (snd (validator D f [] pre each_item always check_fields allow_reuse))
        \<and> isl (field_validator D f [] mode' check_fields'))"
  by (auto simp add: model_serializer_def model_serializer_dec_def validator_def
        field_validator_def is_None_def Let_def split: sum.splits)

theorem model_serializer_bare_decorator_witness:
  "PyFunction ''ser'' [''self''] \<noteq> PyNone
   \<and> \<not> isinstance_staticmethod_classmethod (PyFunction ''ser'' [''self''])
   \<and> is_instance_method_from_sig spec_decorators (PyFunction ''ser'' [''self''])
   \<and> isinstance_FunctionType (PyFunction ''ser'' [''self''])
   \<and> model_serializer spec_decorators (PyFunction ''ser'' [''self'']) (PyStr ''plain'') PyNone =
       Inr (Marker \<lparr>wrapped = PyFunction ''ser'' [''self''],
              decorator_info = ModelSerializerDecoratorInfo (PyStr ''plain'') PyNone,
              shim = Partial ''make_generic_model_serializer''
                       [(''mode'', PyStr ''plain'')]\<rparr>)
   \<and> model_serializer spec_decorators PyNone (PyStr ''plain'') PyNone =
       Inr (Decorator (model_serializer_dec spec_decorators (PyStr ''plain'') PyNone))
   \<and> model_serializer_dec spec_decorators (PyStr ''plain'') PyNone (PyFunction ''ser'' [''self'']) =
       Inr \<lparr>wrapped = PyFunction ''ser'' [''self''],
            decorator_info = ModelSerializerDecoratorInfo (PyStr ''plain'') PyNone,
            shim = Partial ''make_generic_model_serializer''
                     [(''mode'', PyStr ''plain'')]\<rparr>
   \<and> isl (field_validator spec_decorators (PyFunction ''ser'' [''self'']) [] (PyStr ''after'')
            PyNone)"
  using model_serializer_bare_decorator
          [where D = spec_decorators and f = "PyFunction ''ser'' [''self'']"
             and mode = "PyStr ''plain''" and json_return_type = PyNone
             and mode' = "PyStr ''after''" and check_fields' = PyNone]
  by (simp add: spec_defs)

end
